theory Spec2Isabelle
  imports Main
begin

chapter \<open>The workflow engine: storage client, tracing wrapper, import graph and World contract\<close>

text \<open>
  The development has two parts. The first embeds code that is present in the sources:
  the event client of \<open>packages/world-vercel/src/events.ts\<close>, the tracing helpers of
  the local world (\<open>trace\<close>, \<open>getSpanKind\<close>, \<open>instrumentObject\<close>) and the import-graph
  search \<open>parentHasChild\<close> of the discovery plugin. The second part models the World
  contract, the step lifecycle and the hydration codec, whose implementation is not among
  the sources; every definition of that part says so where it is introduced.

  Conventions of the embedding: an awaited promise is the value it settles to, a
  rejection or a thrown exception is the left injection of a sum, a JavaScript object is
  the list of its own enumerable properties in insertion order, and a call to a
  collaborator whose code is elsewhere is a call to a function parameter.
\<close>

section \<open>JavaScript values and objects\<close>

datatype jsvalue =
    JUndefined
  | JNull
  | JBool bool
  | JNum int
  | JStr string
  | JArr "jsvalue list"
  | JObj "(string \<times> jsvalue) list"

type_synonym object = "(string \<times> jsvalue) list"

datatype exn = Error string | TypeError string

text \<open>Property read \<open>obj.k\<close>: \<open>undefined\<close> when the object has no such property.\<close>

definition get_prop :: "object \<Rightarrow> string \<Rightarrow> jsvalue" where
  "get_prop obj k = (case map_of obj k of None \<Rightarrow> JUndefined | Some v \<Rightarrow> v)"

text \<open>
  Property write as the object spread \<open>{...obj, k: v}\<close> performs it: an existing key keeps
  its position and takes the new value, a new key goes last.
\<close>

fun set_prop :: "object \<Rightarrow> string \<Rightarrow> jsvalue \<Rightarrow> object" where
  "set_prop [] k v = [(k, v)]"
| "set_prop ((k', v') # rest) k v =
     (if k' = k then (k, v) # rest else (k', v') # set_prop rest k v)"

text \<open>Truthiness of an optional string.\<close>

definition truthy_string :: "string option \<Rightarrow> bool" where
  "truthy_string s = (case s of None \<Rightarrow> False | Some t \<Rightarrow> t \<noteq> [])"

text \<open>
  A JavaScript number, by the two things the event client reads of one: whether it is
  truthy (neither \<open>0\<close> nor \<open>NaN\<close>) and what \<open>Number.prototype.toString\<close> gives for it
  (\<open>'25'\<close>, \<open>'2.5'\<close>, \<open>'-3'\<close>, \<open>'1e+21'\<close>, \<open>'Infinity'\<close>). No arithmetic is done on it.
\<close>

record js_number =
  num_truthy :: bool
  num_toString :: string

text \<open>A template placeholder \<open>${x}\<close> for a string that may be \<open>undefined\<close> or \<open>null\<close>.\<close>

definition template_undefined :: "string option \<Rightarrow> string" where
  "template_undefined s = (case s of None \<Rightarrow> ''undefined'' | Some t \<Rightarrow> t)"

definition template_null :: "string option \<Rightarrow> string" where
  "template_null s = (case s of None \<Rightarrow> ''null'' | Some t \<Rightarrow> t)"

section \<open>The event client (events.ts)\<close>

datatype resolve_data = ResolveNone | ResolveAll

text \<open>
  \<open>filterEventData\<close>: with \<open>'none'\<close> the rest pattern
  \<open>const { eventData: _eventData, ...rest } = event\<close> keeps every own property but
  \<open>eventData\<close>, in order; otherwise the event is returned as it is.
\<close>

definition filterEventData :: "object \<Rightarrow> resolve_data \<Rightarrow> object" where
  "filterEventData event resolveData =
     (if resolveData = ResolveNone
      then filter (\<lambda>kv. fst kv \<noteq> ''eventData'') event
      else event)"

definition eventsNeedingResolve :: "string list" where
  "eventsNeedingResolve = [''run_created'', ''run_started'', ''step_started'']"

text \<open>\<open>Set.prototype.has\<close> on a set of strings: only a string can be a member.\<close>

definition set_has :: "string list \<Rightarrow> jsvalue \<Rightarrow> bool" where
  "set_has members v = (case v of JStr s \<Rightarrow> s \<in> set members | _ \<Rightarrow> False)"

record pagination =
  limit :: "js_number option"
  cursor :: "string option"
  sortOrder :: "string option"

text \<open>
  \<open>ListEventsParams | ListEventsByCorrelationIdParams\<close>. The field \<open>lp_runId\<close> is
  \<open>None\<close> when the object has no \<open>runId\<close> key (so that \<open>'runId' in params\<close> is false) and
  \<open>Some v\<close> when it has one, with value \<open>v\<close> (\<open>None\<close> for \<open>undefined\<close>).
\<close>

record list_params =
  lp_runId :: "string option option"
  lp_correlationId :: "string option"
  lp_pagination :: "pagination option"
  lp_resolveData :: "resolve_data option"

datatype schema_name =
    EventSchema
  | EventWithRefsSchema
  | EventResultWireSchema
  | PaginatedResponseSchema schema_name

text \<open>
  What \<open>makeRequest\<close> is called with. The query of a GET stays a list of pairs
  (\<open>search\<close>): \<open>URLSearchParams.toString\<close> and its percent-encoding are not expanded, and
  since \<open>remoteRefBehavior\<close> is always set the query is never empty.
\<close>

record request =
  endpoint :: string
  search :: "(string \<times> string) list"
  http_method :: string
  body :: "object option"
  schema :: schema_name

record page =
  data :: "object list"
  page_cursor :: "string option"
  hasMore :: bool

text \<open>\<open>URLSearchParams.set\<close>: replace the first pair of that name and drop the others,
  or append.\<close>

fun searchParams_set ::
  "(string \<times> string) list \<Rightarrow> string \<Rightarrow> string \<Rightarrow> (string \<times> string) list" where
  "searchParams_set [] k v = [(k, v)]"
| "searchParams_set ((k', v') # rest) k v =
     (if k' = k then (k, v) # filter (\<lambda>kv. fst kv \<noteq> k) rest
      else (k', v') # searchParams_set rest k v)"

definition set_if_string ::
  "(string \<times> string) list \<Rightarrow> string \<Rightarrow> string option \<Rightarrow> (string \<times> string) list" where
  "set_if_string sp k v =
     (case v of None \<Rightarrow> sp | Some t \<Rightarrow> if t \<noteq> [] then searchParams_set sp k t else sp)"

definition set_if_number ::
  "(string \<times> string) list \<Rightarrow> string \<Rightarrow> js_number option \<Rightarrow> (string \<times> string) list" where
  "set_if_number sp k v =
     (case v of
        None \<Rightarrow> sp
      | Some n \<Rightarrow> if num_truthy n then searchParams_set sp k (num_toString n) else sp)"

text \<open>Lines 69 to 76 of \<open>getWorkflowRunEvents\<close>: the destructuring with its default and
  the choice between \<open>runId\<close> and \<open>correlationId\<close> by \<open>'runId' in params\<close>.\<close>

definition list_resolveData :: "resolve_data \<Rightarrow> list_params \<Rightarrow> resolve_data" where
  "list_resolveData DEFAULT_RESOLVE_DATA_OPTION params =
     (case lp_resolveData params of None \<Rightarrow> DEFAULT_RESOLVE_DATA_OPTION | Some r \<Rightarrow> r)"

definition list_runId :: "list_params \<Rightarrow> string option" where
  "list_runId params = (case lp_runId params of Some v \<Rightarrow> v | None \<Rightarrow> None)"

definition list_correlationId :: "list_params \<Rightarrow> string option" where
  "list_correlationId params =
     (case lp_runId params of Some v \<Rightarrow> None | None \<Rightarrow> lp_correlationId params)"

text \<open>
  Lines 82 to 102 of \<open>getWorkflowRunEvents\<close>: the one request the function issues once
  an id is there, built from the pagination, the id and \<open>resolveData\<close>.
\<close>

definition list_request :: "resolve_data \<Rightarrow> list_params \<Rightarrow> request" where
  "list_request DEFAULT_RESOLVE_DATA_OPTION params =
    (let pagination = lp_pagination params;
         resolveData = list_resolveData DEFAULT_RESOLVE_DATA_OPTION params;
         runId = list_runId params;
         correlationId = list_correlationId params;
         sp1 = set_if_number [] ''limit''
                 (case pagination of None \<Rightarrow> None | Some p \<Rightarrow> limit p);
         sp2 = set_if_string sp1 ''cursor''
                 (case pagination of None \<Rightarrow> None | Some p \<Rightarrow> cursor p);
         sp3 = set_if_string sp2 ''sortOrder''
                 (case pagination of None \<Rightarrow> None | Some p \<Rightarrow> sortOrder p);
         sp4 = set_if_string sp3 ''correlationId'' correlationId;
         remoteRefBehavior = (if resolveData = ResolveNone then ''lazy'' else ''resolve'');
         searchParams = searchParams_set sp4 ''remoteRefBehavior'' remoteRefBehavior
     in \<lparr> endpoint = (if truthy_string correlationId then ''/v2/events''
                        else ''/v2/runs/'' @ template_undefined runId @ ''/events''),
          search = searchParams,
          http_method = ''GET'',
          body = None,
          schema = PaginatedResponseSchema
            (if remoteRefBehavior = ''lazy'' then EventWithRefsSchema else EventSchema) \<rparr>)"

text \<open>
  \<open>getWorkflowRunEvents\<close>. The constant \<open>DEFAULT_RESOLVE_DATA_OPTION\<close> and the function
  \<open>makeRequest\<close> come from \<open>utils.js\<close> and are parameters. The result pairs the requests
  issued, in order, with the outcome.
\<close>

definition getWorkflowRunEvents ::
  "resolve_data \<Rightarrow> (request \<Rightarrow> exn + page) \<Rightarrow> list_params
     \<Rightarrow> request list \<times> (exn + page)" where
  "getWorkflowRunEvents DEFAULT_RESOLVE_DATA_OPTION makeRequest params =
    (let resolveData = list_resolveData DEFAULT_RESOLVE_DATA_OPTION params;
         runId = list_runId params;
         correlationId = list_correlationId params
     in if \<not> truthy_string runId \<and> \<not> truthy_string correlationId
        then ([], Inl (Error ''Either runId or correlationId must be provided''))
        else
          let req = list_request DEFAULT_RESOLVE_DATA_OPTION params
          in (case makeRequest req of
                Inl e \<Rightarrow> ([req], Inl e)
              | Inr response \<Rightarrow>
                  ([req], Inr (response \<lparr> data :=
                      map (\<lambda>event. filterEventData event resolveData) (data response) \<rparr>))))"

record create_params =
  cp_resolveData :: "resolve_data option"
  cp_v1Compat :: "bool option"

text \<open>The response of the v2 endpoint after \<open>EventResultWireSchema\<close>, and \<open>EventResult\<close>.\<close>

record wire_result =
  w_event :: object
  w_run :: "object option"
  w_step :: "object option"
  w_hook :: "object option"

record event_result =
  er_event :: "object option"
  er_run :: "object option"
  er_step :: "object option"
  er_hook :: "object option"

text \<open>
  The collaborators of \<open>createWorkflowRunEvent\<close> whose code is in other modules:
  \<open>makeRequest\<close> at the two response types it is used at, the v1 helpers of \<open>runs.js\<close> and
  \<open>deserializeStep\<close> of \<open>steps.js\<close>.
\<close>

record collaborators =
  makeRequest_event :: "request \<Rightarrow> exn + object"
  makeRequest_result :: "request \<Rightarrow> exn + wire_result"
  cancelWorkflowRunV1 :: "string \<Rightarrow> create_params option \<Rightarrow> exn + object"
  createWorkflowRunV1 :: "jsvalue \<Rightarrow> exn + object"
  deserializeStep :: "object \<Rightarrow> object"

datatype call =
    CallMakeRequest request
  | CallCancelWorkflowRunV1 string "create_params option"
  | CallCreateWorkflowRunV1 jsvalue

text \<open>Lines 119 and 121: \<open>params?.resolveData ?? DEFAULT\<close> and \<open>params?.v1Compat ?? false\<close>.\<close>

definition create_resolveData :: "resolve_data \<Rightarrow> create_params option \<Rightarrow> resolve_data" where
  "create_resolveData DEFAULT_RESOLVE_DATA_OPTION params =
     (case params of
        None \<Rightarrow> DEFAULT_RESOLVE_DATA_OPTION
      | Some p \<Rightarrow> (case cp_resolveData p of
                     None \<Rightarrow> DEFAULT_RESOLVE_DATA_OPTION | Some r \<Rightarrow> r))"

definition create_v1Compat :: "create_params option \<Rightarrow> bool" where
  "create_v1Compat params =
     (case params of
        None \<Rightarrow> False
      | Some p \<Rightarrow> (case cp_v1Compat p of None \<Rightarrow> False | Some b \<Rightarrow> b))"

text \<open>The guard \<open>data.eventType === 'run_cancelled' && id\<close>: the id when both hold.\<close>

definition cancel_target :: "object \<Rightarrow> string option \<Rightarrow> string option" where
  "cancel_target dat i =
     (if get_prop dat ''eventType'' = JStr ''run_cancelled''
      then (case i of None \<Rightarrow> None | Some t \<Rightarrow> if t \<noteq> [] then Some t else None)
      else None)"

text \<open>The request of the v2 path, lines 142 to 154.\<close>

definition v2_request :: "string option \<Rightarrow> object \<Rightarrow> request" where
  "v2_request i dat =
     (let runIdPath = (case i of None \<Rightarrow> ''null'' | Some t \<Rightarrow> t);
          remoteRefBehavior =
            (if set_has eventsNeedingResolve (get_prop dat ''eventType'')
             then ''resolve'' else ''lazy'')
      in \<lparr> endpoint = ''/v2/runs/'' @ runIdPath @ ''/events'',
           search = [],
           http_method = ''POST'',
           body = Some (set_prop dat ''remoteRefBehavior'' (JStr remoteRefBehavior)),
           schema = EventResultWireSchema \<rparr>)"

text \<open>
  \<open>createWorkflowRunEvent\<close>. The result pairs the calls made to collaborators, in
  order, with the outcome.
\<close>

definition createWorkflowRunEvent ::
  "resolve_data \<Rightarrow> collaborators \<Rightarrow> string option \<Rightarrow> object \<Rightarrow> create_params option
     \<Rightarrow> call list \<times> (exn + event_result)" where
  "createWorkflowRunEvent DEFAULT_RESOLVE_DATA_OPTION env i dat params =
    (let resolveData = create_resolveData DEFAULT_RESOLVE_DATA_OPTION params;
         v1Compat = create_v1Compat params
     in if v1Compat then
          (case cancel_target dat i of
             Some target \<Rightarrow>
               (case cancelWorkflowRunV1 env target params of
                  Inl e \<Rightarrow> ([CallCancelWorkflowRunV1 target params], Inl e)
                | Inr run \<Rightarrow>
                    ([CallCancelWorkflowRunV1 target params],
                     Inr \<lparr> er_event = None, er_run = Some run, er_step = None,
                           er_hook = None \<rparr>))
           | None \<Rightarrow>
               if get_prop dat ''eventType'' = JStr ''run_created'' then
                 (case createWorkflowRunV1 env (get_prop dat ''eventData'') of
                    Inl e \<Rightarrow> ([CallCreateWorkflowRunV1 (get_prop dat ''eventData'')], Inl e)
                  | Inr run \<Rightarrow>
                      ([CallCreateWorkflowRunV1 (get_prop dat ''eventData'')],
                       Inr \<lparr> er_event = None, er_run = Some run, er_step = None,
                             er_hook = None \<rparr>))
               else
                 (let req = \<lparr> endpoint = ''/v1/runs/'' @ template_null i @ ''/events'',
                               search = [], http_method = ''POST'', body = Some dat,
                               schema = EventSchema \<rparr>
                  in case makeRequest_event env req of
                       Inl e \<Rightarrow> ([CallMakeRequest req], Inl e)
                     | Inr wireResult \<Rightarrow>
                         ([CallMakeRequest req],
                          Inr \<lparr> er_event = Some wireResult, er_run = None, er_step = None,
                                er_hook = None \<rparr>)))
        else
          (let req = v2_request i dat
           in case makeRequest_result env req of
                Inl e \<Rightarrow> ([CallMakeRequest req], Inl e)
              | Inr wireResult \<Rightarrow>
                  ([CallMakeRequest req],
                   Inr \<lparr> er_event = Some (filterEventData (w_event wireResult) resolveData),
                         er_run = w_run wireResult,
                         er_step = map_option (deserializeStep env) (w_step wireResult),
                         er_hook = w_hook wireResult \<rparr>)))"

text \<open>The \<open>remoteRefBehavior\<close> a call asks the server for: the property of that name in
  the body of a request, \<open>undefined\<close> where the body has none.\<close>

definition requested_remoteRefBehavior :: "request \<Rightarrow> jsvalue" where
  "requested_remoteRefBehavior req =
     (case body req of None \<Rightarrow> JUndefined | Some b \<Rightarrow> get_prop b ''remoteRefBehavior'')"

section \<open>The import graph search (discover-entries plugin)\<close>

text \<open>
  \<open>importParents\<close> is a \<open>Map<string, Set<string>>\<close>: here a list of entries, each with
  the children of a file in insertion order; \<open>Map.get\<close> is \<open>map_of\<close>.
\<close>

type_synonym import_graph = "(string \<times> string list) list"

text \<open>The inner \<open>for\<close> loop: return at the first child equal to \<open>childToFind\<close>, push
  every child before it onto the queue.\<close>

fun scan_children :: "string \<Rightarrow> string list \<Rightarrow> string list \<Rightarrow> bool \<times> string list" where
  "scan_children childToFind [] queue = (False, queue)"
| "scan_children childToFind (child # rest) queue =
     (if child = childToFind then (True, queue)
      else scan_children childToFind rest (queue @ [child]))"

text \<open>The \<open>while\<close> loop over the queue, with the visited set as loop state.\<close>

function parentHasChild_loop ::
  "import_graph \<Rightarrow> string \<Rightarrow> string set \<Rightarrow> string list \<Rightarrow> bool" where
  "parentHasChild_loop importParents childToFind visited [] = False"
| "parentHasChild_loop importParents childToFind visited (current # queue) =
     (if current \<in> visited
      then parentHasChild_loop importParents childToFind visited queue
      else (case map_of importParents current of
              None \<Rightarrow>
                parentHasChild_loop importParents childToFind (insert current visited) queue
            | Some children \<Rightarrow>
                (case scan_children childToFind children queue of
                   (True, _) \<Rightarrow> True
                 | (False, queue') \<Rightarrow>
                     parentHasChild_loop importParents childToFind
                       (insert current visited) queue')))"
  by pat_completeness auto

text \<open>
  The loop ends on every graph: a pass either shortens the queue without adding a file
  that has an entry to the visited set, or it visits one more of the finitely many files
  that have an entry.
\<close>

definition unvisited :: "import_graph \<Rightarrow> string set \<Rightarrow> nat" where
  "unvisited g visited = card (set (map fst g) - visited)"

lemma unvisited_same:
  "map_of g c = None \<Longrightarrow> unvisited g (insert c visited) = unvisited g visited"
  by (simp add: unvisited_def map_of_eq_None_iff)

lemma unvisited_less:
  assumes "map_of g c = Some cs" and "c \<notin> visited"
  shows "unvisited g (insert c visited) < unvisited g visited"
proof -
  have "c \<in> set (map fst g)"
    using assms(1) by (metis map_of_eq_None_iff option.distinct(1) set_map)
  then have "set (map fst g) - insert c visited \<subset> set (map fst g) - visited"
    using assms(2) by auto
  then show ?thesis
    unfolding unvisited_def by (intro psubset_card_mono) auto
qed

termination parentHasChild_loop
  by (relation "inv_image (less_than <*lex*> less_than)
         (\<lambda>(g, t, visited, queue). (unvisited g visited, length queue))")
     (auto simp: unvisited_same unvisited_less)

definition parentHasChild :: "import_graph \<Rightarrow> string \<Rightarrow> string \<Rightarrow> bool" where
  "parentHasChild importParents parent childToFind =
     parentHasChild_loop importParents childToFind {} [parent]"

text \<open>The import edges of a graph: \<open>(p, c)\<close> when \<open>c\<close> is among the children recorded
  for \<open>p\<close>.\<close>

definition import_edges :: "import_graph \<Rightarrow> (string \<times> string) set" where
  "import_edges g = {(p, c). \<exists>cs. map_of g p = Some cs \<and> c \<in> set cs}"

section \<open>Tracing (telemetry.ts and instrumentObject.ts of the local world)\<close>

text \<open>
  An async function is a transformer of the state it can touch, returning the awaited
  outcome. The state pairs whatever the wrapped functions work on (\<open>world_state\<close>) with the
  operations performed on OpenTelemetry spans (\<open>spans\<close>), which is how a run with tracing
  differs observably from a run without.
\<close>

datatype span_status = StatusOK | StatusERROR "string option"

record span_options =
  kind :: "nat option"

datatype span_event =
    SpanStarted string span_options
  | SpanAttributes "(string \<times> string) list"
  | SpanStatus span_status
  | SpanEnded

record 'w tstate =
  world_state :: 'w
  spans :: "span_event list"

type_synonym ('w, 'a) async = "'w tstate \<Rightarrow> (exn + 'a) \<times> 'w tstate"

text \<open>The part of \<open>@opentelemetry/api\<close> the module reads: the \<open>SpanKind\<close> enumeration.\<close>

record otel_api =
  SpanKind :: "string \<Rightarrow> nat"

datatype tracer = Tracer string

datatype span = ActiveSpan

text \<open>
  \<open>getOtelApi\<close> and \<open>getTracer\<close>. The dynamic \<open>import('@opentelemetry/api')\<close> is cached
  in a module variable, so every call sees the same outcome: the parameter \<open>imported\<close>,
  \<open>None\<close> when the import failed.
\<close>

definition getOtelApi :: "otel_api option \<Rightarrow> otel_api option" where
  "getOtelApi imported = imported"

definition getTracer :: "otel_api option \<Rightarrow> tracer option" where
  "getTracer imported =
     (case getOtelApi imported of None \<Rightarrow> None | Some otel \<Rightarrow> Some (Tracer ''workflow''))"

text \<open>The two call shapes of \<open>trace\<close>: \<open>[fn]\<close> and \<open>[opts, fn]\<close>, the second with a
  function that may be missing.\<close>

datatype ('w, 'a) trace_args =
    ArgsFn "span option \<Rightarrow> ('w, 'a) async"
  | ArgsOptsFn span_options "(span option \<Rightarrow> ('w, 'a) async) option"

definition record_span :: "span_event \<Rightarrow> 'w tstate \<Rightarrow> 'w tstate" where
  "record_span ev s = s \<lparr> spans := spans s @ [ev] \<rparr>"

definition message :: "exn \<Rightarrow> string option" where
  "message e = (case e of Error m \<Rightarrow> Some m | TypeError m \<Rightarrow> Some m)"

text \<open>\<open>tracer.startActiveSpan\<close>: open the span and run the callback with it.\<close>

definition startActiveSpan ::
  "string \<Rightarrow> span_options \<Rightarrow> (span \<Rightarrow> ('w, 'a) async) \<Rightarrow> ('w, 'a) async" where
  "startActiveSpan spanName opts callback s =
     callback ActiveSpan (record_span (SpanStarted spanName opts) s)"

definition trace ::
  "otel_api option \<Rightarrow> string \<Rightarrow> ('w, 'a) trace_args \<Rightarrow> ('w, 'a) async" where
  "trace imported spanName args s =
    (let tracer = getTracer imported;
         otel = getOtelApi imported;
         fn = (case args of ArgsFn f \<Rightarrow> Some f | ArgsOptsFn opts f \<Rightarrow> f);
         opts = (case args of ArgsFn f \<Rightarrow> \<lparr> kind = None \<rparr> | ArgsOptsFn opts f \<Rightarrow> opts)
     in case fn of
          None \<Rightarrow> (Inl (Error ''Function to trace must be provided''), s)
        | Some f \<Rightarrow>
            if tracer = None \<or> otel = None then f None s
            else
              startActiveSpan spanName opts
                (\<lambda>span s1.
                   case f (Some span) s1 of
                     (Inr result, s2) \<Rightarrow>
                       (Inr result,
                        record_span SpanEnded (record_span (SpanStatus StatusOK) s2))
                   | (Inl e, s2) \<Rightarrow>
                       (Inl e,
                        record_span SpanEnded
                          (record_span (SpanStatus (StatusERROR (message e))) s2)))
                s)"

definition getSpanKind :: "otel_api option \<Rightarrow> string \<Rightarrow> nat option" where
  "getSpanKind imported field =
     (case getOtelApi imported of None \<Rightarrow> None | Some otel \<Rightarrow> Some (SpanKind otel field))"

definition SemanticConvention :: "string list \<Rightarrow> string \<Rightarrow> (string \<times> string) list" where
  "SemanticConvention names v = map (\<lambda>name. (name, v)) names"

definition PeerService :: "string \<Rightarrow> (string \<times> string) list" where
  "PeerService = SemanticConvention [''peer.service'']"

definition RpcSystem :: "string \<Rightarrow> (string \<times> string) list" where
  "RpcSystem = SemanticConvention [''rpc.system'']"

definition RpcService :: "string \<Rightarrow> (string \<times> string) list" where
  "RpcService = SemanticConvention [''rpc.service'']"

definition RpcMethod :: "string \<Rightarrow> (string \<times> string) list" where
  "RpcMethod = SemanticConvention [''rpc.method'']"

text \<open>\<open>extractEventType\<close>: the \<open>eventType\<close> of the second argument when that is an object
  holding a string there. An array is an object without that property.\<close>

definition extractEventType :: "jsvalue list \<Rightarrow> string option" where
  "extractEventType args =
     (if 2 \<le> length args
      then (case args ! 1 of
              JObj dat \<Rightarrow> (case get_prop dat ''eventType'' of JStr t \<Rightarrow> Some t | _ \<Rightarrow> None)
            | _ \<Rightarrow> None)
      else None)"

text \<open>
  A function value takes its receiver (\<open>this\<close>), its arguments and the state. A property
  of an object is a plain value or a function.
\<close>

type_synonym 'w js_function = "jsvalue \<Rightarrow> jsvalue list \<Rightarrow> ('w, jsvalue) async"

datatype 'w property = Data jsvalue | Function "'w js_function"

type_synonym 'w js_object = "(string \<times> 'w property) list"

text \<open>\<open>span?.setAttributes(attrs)\<close>: nothing without a span.\<close>

definition setAttributes ::
  "span option \<Rightarrow> (string \<times> string) list \<Rightarrow> 'w tstate \<Rightarrow> 'w tstate" where
  "setAttributes sp attrs s =
     (case sp of None \<Rightarrow> s | Some active \<Rightarrow> record_span (SpanAttributes attrs) s)"

text \<open>Lines 52 to 58 of \<open>instrumentObject\<close>: the span name, with the event type for
  \<open>world.events.create\<close>.\<close>

definition span_name :: "string \<Rightarrow> string \<Rightarrow> jsvalue list \<Rightarrow> string" where
  "span_name prefix methodName args =
     (if prefix = ''world.events'' \<and> methodName = ''create''
      then (case extractEventType args of
              Some eventType \<Rightarrow>
                if eventType \<noteq> [] then prefix @ ''.'' @ methodName @ '' '' @ eventType
                else prefix @ ''.'' @ methodName
            | None \<Rightarrow> prefix @ ''.'' @ methodName)
      else prefix @ ''.'' @ methodName)"

text \<open>
  The wrapper \<open>async (...args) => { ... return trace(spanName, opts, async (span) => { ...;
  return f(...args) }) }\<close>. It is an arrow function, so it ignores the receiver it is
  called on, and it calls \<open>f\<close> as a plain function: \<open>f\<close> runs with \<open>this\<close> undefined.
\<close>

definition instrumented ::
  "otel_api option \<Rightarrow> string \<Rightarrow> string \<Rightarrow> 'w js_function \<Rightarrow> 'w js_function" where
  "instrumented imported prefix methodName f this args =
     (let spanName = span_name prefix methodName args
      in trace imported spanName
           (ArgsOptsFn \<lparr> kind = getSpanKind imported ''INTERNAL'' \<rparr>
              (Some (\<lambda>sp s.
                 f JUndefined args
                   (setAttributes sp
                      (PeerService ''world-local'' @ RpcSystem ''local''
                         @ RpcService ''world-local'' @ RpcMethod spanName) s)))))"

definition instrumentObject ::
  "otel_api option \<Rightarrow> string \<Rightarrow> 'w js_object \<Rightarrow> 'w js_object" where
  "instrumentObject imported prefix obj =
     map (\<lambda>(key, p). case p of
            Data v \<Rightarrow> (key, Data v)
          | Function f \<Rightarrow> (key, Function (instrumented imported prefix key f))) obj"

text \<open>
  The method call \<open>obj.key(...args)\<close>: the function runs with the object as receiver.
  The receiver is handed over as the object's data properties.
\<close>

definition receiver :: "'w js_object \<Rightarrow> jsvalue" where
  "receiver obj =
     JObj (concat (map (\<lambda>(key, p). case p of Data v \<Rightarrow> [(key, v)] | Function f \<Rightarrow> []) obj))"

definition call_method ::
  "'w js_object \<Rightarrow> string \<Rightarrow> jsvalue list \<Rightarrow> ('w, jsvalue) async" where
  "call_method obj key args s =
     (case map_of obj key of
        Some (Function f) \<Rightarrow> f (receiver obj) args s
      | _ \<Rightarrow> (Inl (TypeError (key @ '' is not a function'')), s))"


section \<open>The World contract, the step lifecycle and the codec\<close>

text \<open>
  The storage backends, the step handler of the core and the serialisation code are not
  among the sources; what follows is written from sections 3, 4 and 6 to 8 of the
  specification. Timestamps are natural numbers. Run identifiers are generated by the
  World; step identifiers and hook tokens are the caller's strings.
\<close>

type_synonym time = nat
type_synonym run_id = nat
type_synonym step_id = string
type_synonym token = string
type_synonym bytes = string

subsection \<open>Hydration and dehydration (section 4.2)\<close>

text \<open>Modelled from the spec: the stored form of a payload, "inline value or remote
  reference" (section 3, Event); the serialisation code is missing.\<close>

datatype payload = Inline bytes | RemoteRef nat

text \<open>Modelled from the spec: the blob store behind \<open>put(bytes) \<rightarrow> ref\<close> and
  \<open>get(ref) \<rightarrow> bytes\<close> (section 6); its implementation is missing. A store is the blobs
  by reference together with the next unused reference.\<close>

type_synonym blob_store = "(nat \<rightharpoonup> bytes) \<times> nat"


text \<open>Modelled from the spec: \<open>get(ref) \<rightarrow> bytes\<close> of the blob interface (section 6),
  whose implementation is missing.\<close>

definition blob_get :: "nat \<Rightarrow> blob_store \<Rightarrow> bytes option" where
  "blob_get ref st = fst st ref"


text \<open>Modelled from the spec: Hydrate (section 4.2), whose code is missing: "given a
  reference or inline value, reconstruct the original value; must be idempotent and
  side-effect-free". It reads the store and returns no new one; the deserialiser is a
  parameter.\<close>

definition hydrate :: "(bytes \<Rightarrow> 'v option) \<Rightarrow> blob_store \<Rightarrow> payload \<Rightarrow> 'v option" where
  "hydrate deserialize st p =
     (case p of
        Inline b \<Rightarrow> deserialize b
      | RemoteRef ref \<Rightarrow>
          (case blob_get ref st of None \<Rightarrow> None | Some b \<Rightarrow> deserialize b))"



subsection \<open>Data model (section 3)\<close>

text \<open>Modelled from the spec: the Step status set of section 3; the World's type
  declarations are missing.\<close>

datatype step_status = Pending | Running | Succeeded | Failed | RetryScheduled | Skipped

text \<open>Modelled from the spec: the WorkflowRun status set of section 3; the World's
  type declarations are missing.\<close>

datatype run_status =
  RunPending | RunRunning | RunSuspended | RunCompleted | RunFailed | RunCancelled

text \<open>Modelled from the spec: the failure modes of section 4.1 (the World's error
  type is missing): \<open>NotFound\<close>, \<open>Conflict\<close>, \<open>TooEarly\<close>, \<open>Invalid\<close>.\<close>

datatype world_error = NotFound | Conflict | TooEarly | Invalid

text \<open>Modelled from the spec: the HTTP equivalents sections 4.1 and 6 give (the mapping
  in the backends is missing): 404, 409 and 425; none is given for \<open>Invalid\<close>.\<close>

definition http_equivalent :: "world_error \<Rightarrow> nat option" where
  "http_equivalent err =
     (case err of
        NotFound \<Rightarrow> Some 404
      | Conflict \<Rightarrow> Some 409
      | TooEarly \<Rightarrow> Some 425
      | Invalid \<Rightarrow> None)"

text \<open>Modelled from the spec: the classification of a step error in section 4.3
  item 4 (the classifier is missing): fatal, retryable, transient.\<close>

datatype failure_class = Fatal | Retryable | Transient

text \<open>
  Modelled from the spec: the event types of section 3 with their payloads (the event
  schema is missing). The step and hook events carry their correlation id. Of the types
  section 3 elides, three are needed and added: \<open>step_created\<close> (the append behind
  \<open>steps.create\<close>, carrying \<open>maxRetries\<close> and the argument reference), \<open>run_completed\<close> and
  \<open>run_failed\<close> (the appends that reach those run statuses). \<open>step_failed\<close> carries the
  classification and the \<open>retryAfter\<close> the worker computed (section 4.3 item 4). The
  types \<open>step_skipped\<close>, \<open>wait_created\<close> and \<open>wait_resolved\<close> are left out. The
  operations \<open>runs.create\<close>, \<open>steps.create\<close>, \<open>hooks.create\<close> and \<open>hooks.resolve\<close> of
  section 4.1 are the appends of \<open>run_created\<close>, \<open>step_created\<close>, \<open>hook_created\<close> and
  \<open>hook_resolved\<close>, since every change of state is an event.
\<close>

datatype event_data =
    run_created string
  | run_started
  | run_completed payload
  | run_failed string
  | run_cancelled
  | step_created step_id nat payload
  | step_started step_id
  | step_completed step_id payload
  | step_failed step_id failure_class "time option"
  | hook_created string token
  | hook_resolved token payload

text \<open>Modelled from the spec: WorkflowRun of section 3; its declaration is missing.\<close>

record workflow_run =
  r_runId :: run_id
  r_name :: string
  r_status :: run_status
  r_startedAt :: "time option"
  r_completedAt :: "time option"
  r_result :: "payload option"
  r_error :: "string option"

text \<open>Modelled from the spec: Step of section 3; its declaration is missing.\<close>

record step =
  s_stepId :: step_id
  s_runId :: run_id
  s_attempt :: nat
  s_maxRetries :: nat
  s_status :: step_status
  s_retryAfter :: "time option"
  s_argument :: payload
  s_result :: "payload option"

text \<open>Modelled from the spec: Hook of section 3; its declaration is missing.\<close>

record hook =
  h_hookId :: string
  h_token :: token
  h_runId :: run_id
  h_resolved :: bool

text \<open>Modelled from the spec: Event of section 3 (its declaration is missing), without
  \<open>specVersion\<close>; the event type, correlation id and payload are in \<open>e_data\<close>.\<close>

record event =
  e_eventId :: nat
  e_runId :: run_id
  e_data :: event_data
  e_createdAt :: time

text \<open>Modelled from the spec: the derived run, step and hook state (section 3,
  Invariants); the backends' tables are missing.\<close>

record entities =
  run_table :: "run_id \<rightharpoonup> workflow_run"
  step_table :: "run_id \<times> step_id \<rightharpoonup> step"
  hook_table :: "token \<rightharpoonup> hook"

text \<open>Modelled from the spec: a World (section 4.1), whose implementations are missing:
  the derived state and the append-only log, oldest event first.\<close>

record world =
  derived :: entities
  log :: "event list"

text \<open>Modelled from the spec: the state before any event (the backends' initial state
  is missing).\<close>

definition empty_entities :: entities where
  "empty_entities = \<lparr> run_table = Map.empty, step_table = Map.empty, hook_table = Map.empty \<rparr>"

text \<open>Modelled from the spec: the World before any append (missing with the
  backends).\<close>

definition empty_world :: world where
  "empty_world = \<lparr> derived = empty_entities, log = [] \<rparr>"

text \<open>Modelled from the spec: the terminal run statuses of section 3, "(\<open>completed\<close>,
  \<open>failed\<close>, \<open>cancelled\<close>)"; the backends' check is missing.\<close>

definition run_terminal :: "run_status \<Rightarrow> bool" where
  "run_terminal st = (st = RunCompleted \<or> st = RunFailed \<or> st = RunCancelled)"

text \<open>Modelled from the spec: the terminal step states of section 4.3 item 6,
  "(\<open>succeeded\<close>/\<open>failed\<close> exhausted)"; the backends' check is missing.\<close>

definition step_terminal :: "step_status \<Rightarrow> bool" where
  "step_terminal st = (st = Succeeded \<or> st = Failed)"

subsection \<open>The effect of an accepted event on its step (sections 3, 4.3 and 4.4)\<close>

text \<open>Modelled from the spec: "failed with attempts exhausted" (section 4.3; the retry
  scheduler is missing). A step with \<open>maxRetries\<close> retries has one first attempt and
  \<open>maxRetries\<close> more, so its attempts are exhausted once \<open>attempt\<close> exceeds \<open>maxRetries\<close>;
  in the scenario of section 8 a step with \<open>maxRetries = 2\<close> is retried after attempt 1.\<close>

definition attempts_exhausted :: "step \<Rightarrow> bool" where
  "attempts_exhausted s = (s_maxRetries s < s_attempt s)"


text \<open>Modelled from the spec: the patch of an accepted \<open>step_completed\<close> (section 4.3
  item 3; the backends' code is missing): the step has \<open>succeeded\<close> and holds the result
  reference.\<close>

definition completed_patch :: "payload \<Rightarrow> step \<Rightarrow> step" where
  "completed_patch res s = s \<lparr> s_status := Succeeded, s_result := Some res \<rparr>"

text \<open>Modelled from the spec: the patch of an accepted \<open>step_failed\<close> (section 4.3; the
  backends' code is missing): "on \<open>failed\<close> with attempts remaining \<rightarrow> \<open>retry_scheduled\<close>
  ...; on \<open>failed\<close> with attempts exhausted \<rightarrow> terminal \<open>failed\<close>", and a fatal error is
  never retried.\<close>

definition failed_patch :: "failure_class \<Rightarrow> time option \<Rightarrow> step \<Rightarrow> step" where
  "failed_patch cls ra s =
     (if cls = Fatal \<or> attempts_exhausted s
      then s \<lparr> s_status := Failed, s_retryAfter := None \<rparr>
      else s \<lparr> s_status := RetryScheduled, s_retryAfter := ra \<rparr>)"

text \<open>Modelled from the spec: cancellation (section 4.4; the backends' code is
  missing): of the cancelled run, "steps still in flight transition to \<open>skipped\<close>", which
  is read as every step that is in neither terminal state.\<close>

definition skip_in_flight :: "run_id \<Rightarrow> entities \<Rightarrow> entities" where
  "skip_in_flight r en =
     en \<lparr> step_table :=
            (\<lambda>k. case step_table en k of
                    None \<Rightarrow> None
                  | Some s \<Rightarrow>
                      if s_runId s = r \<and> \<not> step_terminal (s_status s)
                      then Some (s \<lparr> s_status := Skipped \<rparr>) else Some s) \<rparr>"

subsection \<open>Appending events (section 4.1)\<close>

text \<open>Modelled from the spec: the result of \<open>events.create\<close>, "\<open>{event, run?, step?,
  hook?}\<close> ... the denormalized entities affected" (section 4.1); its declaration is
  missing.\<close>

record create_result =
  cr_event :: event
  cr_run :: "workflow_run option"
  cr_step :: "step option"
  cr_hook :: "hook option"

text \<open>Modelled from the spec: \<open>steps.update(runId, stepId, expectedStatus, patch)\<close>
  (section 4.1; the backends' code is missing): "fails with \<open>Conflict\<close> if the step's
  current status does not match \<open>expectedStatus\<close>", and with \<open>NotFound\<close> for an unknown
  id. Derived state is "mutated only by appending events" (section 3), so this conditional
  write is made as part of an append (section 4.3 item 3), not on its own.\<close>

definition steps_update ::
  "run_id \<Rightarrow> step_id \<Rightarrow> step_status \<Rightarrow> (step \<Rightarrow> step) \<Rightarrow> entities
     \<Rightarrow> world_error + step \<times> entities" where
  "steps_update r sid expectedStatus patch en =
     (case step_table en (r, sid) of
        None \<Rightarrow> Inl NotFound
      | Some s \<Rightarrow>
          if s_status s \<noteq> expectedStatus then Inl Conflict
          else Inr (patch s, en \<lparr> step_table := (step_table en)((r, sid) \<mapsto> patch s) \<rparr>))"

text \<open>Modelled from the spec: the event an append creates (the backends' code is
  missing): its \<open>eventId\<close> is "unique, monotonically orderable" (its position in the
  log) and \<open>createdAt\<close> is the time of the append.\<close>

definition new_event :: "time \<Rightarrow> run_id \<Rightarrow> event_data \<Rightarrow> world \<Rightarrow> event" where
  "new_event now r d w =
     \<lparr> e_eventId = length (log w), e_runId = r, e_data = d, e_createdAt = now \<rparr>"

text \<open>Modelled from the spec: an accepted append (the backends' code is missing): the
  event goes to the end of the log, the derived state is replaced, and the event is
  returned with the entities affected.\<close>

definition commit ::
  "time \<Rightarrow> run_id \<Rightarrow> event_data \<Rightarrow> world \<Rightarrow> entities
     \<Rightarrow> workflow_run option \<Rightarrow> step option \<Rightarrow> hook option
     \<Rightarrow> world_error + create_result \<times> world" where
  "commit now r d w en' run' step' hook' =
     Inr (\<lparr> cr_event = new_event now r d w, cr_run = run', cr_step = step',
            cr_hook = hook' \<rparr>,
          \<lparr> derived = en', log = log w @ [new_event now r d w] \<rparr>)"

text \<open>Modelled from the spec: "\<open>retryAfter\<close> has not yet elapsed" (section 4.3 item 5;
  the backends' check is missing), with "absence = eligible now" (section 3) and
  "invoking it at or after \<open>retryAfter\<close> must proceed" (section 8).\<close>

definition retry_not_reached :: "time \<Rightarrow> step \<Rightarrow> bool" where
  "retry_not_reached now s = (case s_retryAfter s of None \<Rightarrow> False | Some t \<Rightarrow> now < t)"

text \<open>
  Modelled from the spec: the validation and the write of \<open>events.create\<close> for an
  existing run that is not terminal, one equation per event type (the backends' code is
  missing). An append is rejected where the specification says so and accepted
  otherwise:
  \<^item> \<open>run_created\<close> needs \<open>runId = null\<close> (section 4.1), so with a run id it is \<open>Invalid\<close>;
  \<^item> ids are unique (section 3), so creating a step or a hook that exists is a
    \<open>Conflict\<close>;
  \<^item> a step is created with \<open>attempt = 0\<close>: it has no \<open>step_started\<close> event yet, and its
    first accepted \<open>step_started\<close> makes the attempt 1, the number attempts start at
    (section 3; "append \<open>step_started\<close> (attempt 1)" in the scenario of section 8);
  \<^item> \<open>step_started\<close> on an unknown step is \<open>NotFound\<close>, on a step in a terminal state
    \<open>Conflict\<close> (section 4.3 item 6), before its \<open>retryAfter\<close> \<open>TooEarly\<close> (item 5);
  \<^item> \<open>step_completed\<close> and \<open>step_failed\<close> go through the conditional update expecting
    \<open>running\<close> (section 4.3 item 3, and section 8, At-most-one completion);
  \<^item> \<open>hook_resolved\<close> for a token that is unknown in this run is \<open>NotFound\<close>.
\<close>

fun accept ::
  "time \<Rightarrow> run_id \<Rightarrow> workflow_run \<Rightarrow> event_data \<Rightarrow> world
     \<Rightarrow> world_error + create_result \<times> world" where
  "accept now r run (run_created nm) w = Inl Invalid"
| "accept now r run run_started w =
     (let en = derived w;
          run' = run \<lparr> r_status := RunRunning, r_startedAt := Some now \<rparr>
      in commit now r run_started w (en \<lparr> run_table := (run_table en)(r \<mapsto> run') \<rparr>)
           (Some run') None None)"
| "accept now r run (run_completed res) w =
     (let en = derived w;
          run' = run \<lparr> r_status := RunCompleted, r_completedAt := Some now,
                        r_result := Some res \<rparr>
      in commit now r (run_completed res) w
           (en \<lparr> run_table := (run_table en)(r \<mapsto> run') \<rparr>) (Some run') None None)"
| "accept now r run (run_failed err) w =
     (let en = derived w;
          run' = run \<lparr> r_status := RunFailed, r_completedAt := Some now,
                        r_error := Some err \<rparr>
      in commit now r (run_failed err) w
           (en \<lparr> run_table := (run_table en)(r \<mapsto> run') \<rparr>) (Some run') None None)"
| "accept now r run run_cancelled w =
     (let en = derived w;
          run' = run \<lparr> r_status := RunCancelled, r_completedAt := Some now \<rparr>
      in commit now r run_cancelled w
           (skip_in_flight r (en \<lparr> run_table := (run_table en)(r \<mapsto> run') \<rparr>))
           (Some run') None None)"
| "accept now r run (step_created sid mx arg) w =
     (let en = derived w in
      case step_table en (r, sid) of
        Some s \<Rightarrow> Inl Conflict
      | None \<Rightarrow>
          (let s' = \<lparr> s_stepId = sid, s_runId = r, s_attempt = 0, s_maxRetries = mx,
                      s_status = Pending, s_retryAfter = None, s_argument = arg,
                      s_result = None \<rparr>
           in commit now r (step_created sid mx arg) w
                (en \<lparr> step_table := (step_table en)((r, sid) \<mapsto> s') \<rparr>)
                None (Some s') None))"
| "accept now r run (step_started sid) w =
     (let en = derived w in
      case step_table en (r, sid) of
        None \<Rightarrow> Inl NotFound
      | Some s \<Rightarrow>
          if step_terminal (s_status s) then Inl Conflict
          else if retry_not_reached now s then Inl TooEarly
          else
            (let s' = s \<lparr> s_attempt := s_attempt s + 1, s_status := Running,
                          s_retryAfter := None \<rparr>
             in commit now r (step_started sid) w
                  (en \<lparr> step_table := (step_table en)((r, sid) \<mapsto> s') \<rparr>)
                  None (Some s') None))"
| "accept now r run (step_completed sid res) w =
     (case steps_update r sid Running (completed_patch res) (derived w) of
        Inl err \<Rightarrow> Inl err
      | Inr (s', en') \<Rightarrow> commit now r (step_completed sid res) w en' None (Some s') None)"
| "accept now r run (step_failed sid cls ra) w =
     (case steps_update r sid Running (failed_patch cls ra) (derived w) of
        Inl err \<Rightarrow> Inl err
      | Inr (s', en') \<Rightarrow> commit now r (step_failed sid cls ra) w en' None (Some s') None)"
| "accept now r run (hook_created hid tok) w =
     (let en = derived w in
      case hook_table en tok of
        Some h \<Rightarrow> Inl Conflict
      | None \<Rightarrow>
          (let h' = \<lparr> h_hookId = hid, h_token = tok, h_runId = r, h_resolved = False \<rparr>
           in commit now r (hook_created hid tok) w
                (en \<lparr> hook_table := (hook_table en)(tok \<mapsto> h') \<rparr>)
                None None (Some h')))"
| "accept now r run (hook_resolved tok dat) w =
     (let en = derived w in
      case hook_table en tok of
        None \<Rightarrow> Inl NotFound
      | Some h \<Rightarrow>
          if h_runId h \<noteq> r then Inl NotFound
          else
            (let h' = h \<lparr> h_resolved := True \<rparr>
             in commit now r (hook_resolved tok dat) w
                  (en \<lparr> hook_table := (hook_table en)(tok \<mapsto> h') \<rparr>)
                  None None (Some h')))"

text \<open>Modelled from the spec: \<open>events.create\<close> with \<open>runId = null\<close>, which "is only valid
  for \<open>run_created\<close>" (section 4.1; the backends' code is missing). The new run takes the
  id of its \<open>run_created\<close> event and is \<open>pending\<close>.\<close>

fun create_run ::
  "time \<Rightarrow> event_data \<Rightarrow> world \<Rightarrow> world_error + create_result \<times> world" where
  "create_run now (run_created nm) w =
     (let en = derived w;
          r = length (log w);
          run = \<lparr> r_runId = r, r_name = nm, r_status = RunPending, r_startedAt = None,
                  r_completedAt = None, r_result = None, r_error = None \<rparr>
      in commit now r (run_created nm) w (en \<lparr> run_table := (run_table en)(r \<mapsto> run) \<rparr>)
           (Some run) None None)"
| "create_run now d w = Inl Invalid"

text \<open>Modelled from the spec: \<open>events.create(runId | null, eventData, params)\<close>
  (section 4.1; the backends' code is missing), at the time \<open>now\<close> of the call. An
  unknown run is \<open>NotFound\<close>; "further event appends for a terminal run are rejected"
  (section 3), as the duplicate terminal action that \<open>Conflict\<close> stands for (section
  7).\<close>

definition events_create ::
  "time \<Rightarrow> run_id option \<Rightarrow> event_data \<Rightarrow> world
     \<Rightarrow> world_error + create_result \<times> world" where
  "events_create now rid d w =
    (case rid of
       None \<Rightarrow> create_run now d w
     | Some r \<Rightarrow>
         (case run_table (derived w) r of
            None \<Rightarrow> Inl NotFound
          | Some run \<Rightarrow>
              if run_terminal (r_status run) then Inl Conflict
              else accept now r run d w))"

text \<open>Modelled from the spec: one call of \<open>events.create\<close> by any client, as the time
  of the call, the run id and the event data (the callers are missing).\<close>

type_synonym submission = "time \<times> run_id option \<times> event_data"

text \<open>Modelled from the spec: the World after one call (the backends are missing): a
  rejected call leaves it as it was.\<close>

definition submit :: "world \<Rightarrow> submission \<Rightarrow> world" where
  "submit w q =
     (case q of (now, rid, d) \<Rightarrow>
        (case events_create now rid d w of Inl err \<Rightarrow> w | Inr (res, w') \<Rightarrow> w'))"

text \<open>Modelled from the spec: an observed state (the backends are missing): the World
  after any sequence of calls, accepted or rejected, at any times. The calls of concurrent
  clients take effect one at a time, in some order: each is a conditional write on the
  shared state, which is how the components coordinate (section 5).\<close>

definition world_after :: "submission list \<Rightarrow> world" where
  "world_after qs = foldl submit empty_world qs"

subsection \<open>The worker (section 4.3, Invocation protocol)\<close>

text \<open>Modelled from the spec: the step-invocation message of section 4.3 item 1,
  "containing \<open>runId\<close>, \<open>stepId\<close>, expected \<open>attempt\<close>, and the argument reference"; the
  step handler is missing.\<close>

record invocation =
  i_runId :: run_id
  i_stepId :: step_id
  i_attempt :: nat
  i_argument :: payload

text \<open>Modelled from the spec: what the worker holds once it has hydrated (the step
  handler is missing): the attempt it executes and the arguments.\<close>

record 'v hydrated =
  hy_attempt :: nat
  hy_arguments :: "'v option"

text \<open>
  Modelled from the spec: items 1 and 2 of the invocation protocol (the step handler is
  missing). The worker does not fetch the step; it appends \<open>step_started\<close> and, "deferred
  until the \<open>step_started\<close> append is acknowledged", hydrates, taking the attempt from the
  step the acknowledgement returns. A rejected append is returned to the caller (section
  7) and nothing is hydrated.
\<close>

definition worker_begin ::
  "(bytes \<Rightarrow> 'v option) \<Rightarrow> blob_store \<Rightarrow> time \<Rightarrow> invocation \<Rightarrow> world
     \<Rightarrow> (world_error + 'v hydrated) \<times> world" where
  "worker_begin deserialize blobs now msg w =
     (case events_create now (Some (i_runId msg)) (step_started (i_stepId msg)) w of
        Inl err \<Rightarrow> (Inl err, w)
      | Inr (ack, w') \<Rightarrow>
          (Inr \<lparr> hy_attempt = (case cr_step ack of None \<Rightarrow> 0 | Some s \<Rightarrow> s_attempt s),
                 hy_arguments = hydrate deserialize blobs (i_argument msg) \<rparr>, w'))"

subsection \<open>Counting events in a log\<close>

text \<open>Modelled from the spec: "the count of \<open>step_started\<close> events durably appended for
  that \<open>stepId\<close>" (section 3), read off the log of the run.\<close>

definition count_started :: "run_id \<Rightarrow> step_id \<Rightarrow> event list \<Rightarrow> nat" where
  "count_started r sid es =
     length (filter (\<lambda>e. e_runId e = r \<and> e_data e = step_started sid) es)"





section \<open>Notions used in the statements and the proofs\<close>

text \<open>What a call asks for: the \<open>remoteRefBehavior\<close> of the request it hands to
  \<open>makeRequest\<close>; the v1 helpers build their requests in another module.\<close>

definition behaviour_of_call :: "call \<Rightarrow> jsvalue option" where
  "behaviour_of_call c =
     (case c of CallMakeRequest req \<Rightarrow> Some (requested_remoteRefBehavior req) | _ \<Rightarrow> None)"

text \<open>The loop invariant: every visited file has been expanded, that is, none of its
  children is the file looked for and each of them is visited or waiting in the queue.\<close>

definition expanded :: "import_graph \<Rightarrow> string \<Rightarrow> string set \<Rightarrow> string list \<Rightarrow> bool" where
  "expanded g t visited queue \<longleftrightarrow>
     (\<forall>v c. v \<in> visited \<and> (v, c) \<in> import_edges g
        \<longrightarrow> c \<noteq> t \<and> (c \<in> visited \<or> c \<in> set queue))"

text \<open>Invariants of the World, each for one step \<open>(r, sid)\<close>. The first: the step's
  \<open>attempt\<close> is the number of its \<open>step_started\<close> events in the log, and a step that does
  not exist has none.\<close>

definition attempt_counted :: "world \<Rightarrow> run_id \<Rightarrow> step_id \<Rightarrow> bool" where
  "attempt_counted w r sid =
     (case step_table (derived w) (r, sid) of
        None \<Rightarrow> count_started r sid (log w) = 0
      | Some s \<Rightarrow> s_attempt s = count_started r sid (log w))"


text \<open>The third: a step belongs to a run that exists.\<close>

definition step_has_run :: "world \<Rightarrow> run_id \<Rightarrow> step_id \<Rightarrow> bool" where
  "step_has_run w r sid =
     (step_table (derived w) (r, sid) = None \<or> run_table (derived w) r \<noteq> None)"


section \<open>Inputs used in the examples\<close>

text \<open>Collaborators of the event client that fail every call, as a server that cannot
  be reached would make them.\<close>

definition offline_event :: "request \<Rightarrow> exn + object" where
  "offline_event req = Inl (Error ''offline'')"

definition offline_result :: "request \<Rightarrow> exn + wire_result" where
  "offline_result req = Inl (Error ''offline'')"

definition offline_page :: "request \<Rightarrow> exn + page" where
  "offline_page req = Inl (Error ''offline'')"

definition offline_cancel :: "string \<Rightarrow> create_params option \<Rightarrow> exn + object" where
  "offline_cancel i p = Inl (Error ''offline'')"

definition offline_create :: "jsvalue \<Rightarrow> exn + object" where
  "offline_create d = Inl (Error ''offline'')"

definition same_step :: "object \<Rightarrow> object" where
  "same_step st = st"

definition offline :: collaborators where
  "offline = \<lparr> makeRequest_event = offline_event, makeRequest_result = offline_result,
      cancelWorkflowRunV1 = offline_cancel, createWorkflowRunV1 = offline_create,
      deserializeStep = same_step \<rparr>"

text \<open>A \<open>step_started\<close> request, parameters that switch \<open>v1Compat\<close> on, and parameters
  that ask for \<open>resolveData: 'none'\<close>.\<close>

definition start_request :: object where
  "start_request = [(''eventType'', JStr ''step_started''), (''correlationId'', JStr ''s1'')]"

definition v1_params :: "create_params option" where
  "v1_params = Some \<lparr> cp_resolveData = None, cp_v1Compat = Some True \<rparr>"

definition none_params :: "create_params option" where
  "none_params = Some \<lparr> cp_resolveData = Some ResolveNone, cp_v1Compat = None \<rparr>"

text \<open>List parameters with a \<open>runId\<close> key that is \<open>undefined\<close> and an empty
  \<open>correlationId\<close>.\<close>

definition no_id_params :: list_params where
  "no_id_params = \<lparr> lp_runId = Some None, lp_correlationId = Some [],
     lp_pagination = None, lp_resolveData = None \<rparr>"

text \<open>An import graph with the cycle \<open>a \<rightarrow> b \<rightarrow> a\<close> and a leaf \<open>c\<close>.\<close>

definition cyclic_imports :: import_graph where
  "cyclic_imports = [(''a'', [''b'', ''c'']), (''b'', [''a''])]"











text \<open>An object with a data property and three methods: \<open>getX() { return this.x }\<close>,
  which reads its receiver, and two that do not: \<open>ping\<close> returns its arguments and \<open>get\<close>
  rejects. \<open>idle\<close> is a state in which no span operation has been performed.\<close>

definition getX :: "'w js_function" where
  "getX this args s =
     (case this of
        JObj props \<Rightarrow> (Inr (get_prop props ''x''), s)
      | _ \<Rightarrow> (Inl (TypeError ''Cannot read properties of undefined (reading x)''), s))"

definition ping :: "'w js_function" where
  "ping this args s = (Inr (JArr args), s)"

definition failing :: "'w js_function" where
  "failing this args s = (Inl (Error ''no such run''), s)"

definition sample_object :: "unit js_object" where
  "sample_object = [(''x'', Data (JNum 1)), (''getX'', Function getX),
     (''ping'', Function ping), (''get'', Function failing)]"

definition idle :: "unit tstate" where
  "idle = \<lparr> world_state = (), spans = [] \<rparr>"

definition traced_ping :: "span option \<Rightarrow> (unit, jsvalue) async" where
  "traced_ping sp s = ping JUndefined [JNum 7] s"

definition traced_failing :: "span option \<Rightarrow> (unit, jsvalue) async" where
  "traced_failing sp s = failing JUndefined [] s"

text \<open>
  The scenario of section 8 of the specification: run 0 is created and started, step
  \<open>s1\<close> is created with \<open>maxRetries = 2\<close>, started at time 103 and fails retryably at 104
  with a backoff of ten time units. Then the two states that follow from it.
\<close>

definition running_scenario :: "submission list" where
  "running_scenario =
     [(100, None, run_created ''order''),
      (101, Some 0, run_started),
      (102, Some 0, step_created ''s1'' 2 (Inline ''args'')),
      (103, Some 0, step_started ''s1'')]"

definition retry_scenario :: "submission list" where
  "retry_scenario = running_scenario @ [(104, Some 0, step_failed ''s1'' Retryable (Some 114))]"

definition done_scenario :: "submission list" where
  "done_scenario =
     retry_scenario @
       [(114, Some 0, step_started ''s1''),
        (120, Some 0, step_completed ''s1'' (Inline ''result''))]"






definition retry_step :: step where
  "retry_step = \<lparr> s_stepId = ''s1'', s_runId = 0, s_attempt = 1, s_maxRetries = 2,
     s_status = RetryScheduled, s_retryAfter = Some 114, s_argument = Inline ''args'',
     s_result = None \<rparr>"

definition done_step :: step where
  "done_step = \<lparr> s_stepId = ''s1'', s_runId = 0, s_attempt = 2, s_maxRetries = 2,
     s_status = Succeeded, s_retryAfter = None, s_argument = Inline ''args'',
     s_result = Some (Inline ''result'') \<rparr>"




definition s1_invocation :: invocation where
  "s1_invocation = \<lparr> i_runId = 0, i_stepId = ''s1'', i_attempt = 2,
     i_argument = Inline ''args'' \<rparr>"


definition plain_deserialize :: "bytes \<Rightarrow> string option" where
  "plain_deserialize b = Some b"

definition empty_blobs :: blob_store where
  "empty_blobs = (Map.empty, 0)"

chapter \<open>Properties\<close>

section \<open>The event client\<close>

lemma get_set_prop: "get_prop (set_prop obj k v) k = v"
  by (induction obj) (auto simp: get_prop_def)

text \<open>
  C6, as stated: every event creation asks for \<open>remoteRefBehavior\<close> \<open>'resolve'\<close> when the
  event type is in the allow-list. With \<open>v1Compat\<close> set this fails: a \<open>step_started\<close>
  event, which is in the allow-list, is posted to the v1 endpoint with the caller's data
  as the body, and no \<open>remoteRefBehavior\<close> is asked for at all.
\<close>

theorem v1Compat_requests_no_remoteRefBehavior:
  "set_has eventsNeedingResolve (get_prop start_request ''eventType'') \<and>
   map behaviour_of_call
     (fst (createWorkflowRunEvent ResolveAll offline (Some ''r1'') start_request v1_params))
   = [Some JUndefined]"
  by (simp add: createWorkflowRunEvent_def offline_def offline_event_def get_prop_def
       requested_remoteRefBehavior_def template_null_def behaviour_of_call_def
       cancel_target_def create_v1Compat_def v1_params_def start_request_def set_has_def
       eventsNeedingResolve_def)

text \<open>
  C6, amended: for every event creation that is not in \<open>v1Compat\<close> mode, exactly one
  request is made, and it asks for \<open>'resolve'\<close> when the event type is one of
  \<open>run_created\<close>, \<open>run_started\<close>, \<open>step_started\<close> and for \<open>'lazy'\<close> otherwise, whatever
  the caller's \<open>resolveData\<close> and the default are.
\<close>

theorem remoteRefBehavior_by_event_type:
  assumes "\<not> create_v1Compat params"
  shows "map behaviour_of_call (fst (createWorkflowRunEvent d env i dat params)) =
     [Some (JStr (if set_has eventsNeedingResolve (get_prop dat ''eventType'')
                  then ''resolve'' else ''lazy''))]"
proof -
  have "requested_remoteRefBehavior (v2_request i dat) =
     JStr (if set_has eventsNeedingResolve (get_prop dat ''eventType'')
           then ''resolve'' else ''lazy'')"
    by (simp add: requested_remoteRefBehavior_def v2_request_def get_set_prop Let_def)
  moreover have
    "fst (createWorkflowRunEvent d env i dat params) = [CallMakeRequest (v2_request i dat)]"
    using assms by (simp add: createWorkflowRunEvent_def Let_def split: sum.splits)
  ultimately show ?thesis by (simp add: behaviour_of_call_def)
qed

text \<open>At a \<open>step_started\<close> request with \<open>resolveData: 'none'\<close>: the request still asks
  for \<open>'resolve'\<close>.\<close>

theorem remoteRefBehavior_by_event_type_witness:
  "\<not> create_v1Compat none_params \<and>
   create_resolveData ResolveAll none_params = ResolveNone \<and>
   map behaviour_of_call
     (fst (createWorkflowRunEvent ResolveAll offline (Some ''r1'') start_request none_params))
   = [Some (JStr ''resolve'')]"
  using remoteRefBehavior_by_event_type
    [of none_params ResolveAll offline "Some ''r1''" start_request]
  by (simp add: create_v1Compat_def create_resolveData_def none_params_def start_request_def
      get_prop_def set_has_def eventsNeedingResolve_def)

text \<open>
  C9: when the parameters supply neither a non-empty \<open>runId\<close> nor a non-empty
  \<open>correlationId\<close>, \<open>getWorkflowRunEvents\<close> throws \<open>Either runId or correlationId must be
  provided\<close> and has issued no request.
\<close>

theorem getWorkflowRunEvents_requires_an_id:
  assumes "\<not> truthy_string (list_runId params)"
      and "\<not> truthy_string (lp_correlationId params)"
  shows "getWorkflowRunEvents d makeRequest params =
           ([], Inl (Error ''Either runId or correlationId must be provided''))"
proof -
  have "\<not> truthy_string (list_correlationId params)"
    using assms(2) by (simp add: list_correlationId_def truthy_string_def split: option.splits)
  with assms(1) show ?thesis by (simp add: getWorkflowRunEvents_def)
qed

theorem getWorkflowRunEvents_requires_an_id_witness:
  "\<not> truthy_string (list_runId no_id_params) \<and>
   \<not> truthy_string (lp_correlationId no_id_params) \<and>
   getWorkflowRunEvents ResolveAll offline_page no_id_params =
           ([], Inl (Error ''Either runId or correlationId must be provided''))"
  using getWorkflowRunEvents_requires_an_id [of no_id_params ResolveAll offline_page]
  by (simp add: no_id_params_def list_runId_def truthy_string_def)













section \<open>Tracing\<close>

lemma trace_disabled: "trace None spanName (ArgsFn fn) s = fn None s"
  by (simp add: trace_def getTracer_def getOtelApi_def)

lemma instrumented_disabled:
  "instrumented None prefix key f this args s = f JUndefined args s"
  by (simp add: instrumented_def trace_def getTracer_def getOtelApi_def setAttributes_def
      Let_def)

lemma map_of_instrumentObject:
  "map_of (instrumentObject imported prefix obj) key =
     (case map_of obj key of
        None \<Rightarrow> None
      | Some (Data v) \<Rightarrow> Some (Data v)
      | Some (Function f) \<Rightarrow> Some (Function (instrumented imported prefix key f)))"
  by (induction obj) (auto simp: instrumentObject_def split: property.splits)

lemma keys_instrumentObject: "map fst (instrumentObject imported prefix obj) = map fst obj"
  by (induction obj) (auto simp: instrumentObject_def split: property.splits)

text \<open>
  C8, as stated: with OpenTelemetry unavailable, every method of the instrumented object
  returns what the method of the original object returns on the same arguments. This
  fails for a method that reads its receiver: \<open>getX\<close> called on the object returns the
  object's \<open>x\<close>, but the wrapper calls the function it took out of the object as a plain
  function, so the instrumented \<open>getX\<close> runs without a receiver and rejects with a
  \<open>TypeError\<close>.
\<close>

theorem instrumented_method_loses_receiver:
  "call_method sample_object ''getX'' [] idle = (Inr (JNum 1), idle) \<and>
   call_method (instrumentObject None ''world.runs'' sample_object) ''getX'' [] idle
     = (Inl (TypeError ''Cannot read properties of undefined (reading x)''), idle)"
  by (simp add: call_method_def sample_object_def instrumentObject_def instrumented_disabled
      getX_def receiver_def get_prop_def)

text \<open>
  C8, amended: with OpenTelemetry unavailable, \<open>trace(spanName, fn)\<close> is \<open>fn()\<close>: the same
  result or the same exception, and the same effects, with no span operation added. Every
  method of \<open>instrumentObject(prefix, o)\<close> whose function does not depend on its receiver
  behaves as the method of \<open>o\<close> does on the same arguments. The instrumented object has
  the keys of \<open>o\<close> in the same order, and its data properties are those of \<open>o\<close>, unchanged.
\<close>

theorem disabled_tracing_is_transparent:
  assumes "map_of obj key = Some (Function f)" and "\<And>this. f this = f JUndefined"
  shows "trace None spanName (ArgsFn fn) s = fn None s \<and>
         call_method (instrumentObject None prefix obj) key args s
           = call_method obj key args s \<and>
         map fst (instrumentObject None prefix obj) = map fst obj \<and>
         (\<forall>k v. map_of (instrumentObject None prefix obj) k = Some (Data v)
                 \<longleftrightarrow> map_of obj k = Some (Data v))"
proof -
  have "call_method (instrumentObject None prefix obj) key args s = call_method obj key args s"
    using assms(1) assms(2) [of "receiver obj"]
    by (simp add: call_method_def map_of_instrumentObject instrumented_disabled)
  moreover have "\<forall>k v. map_of (instrumentObject None prefix obj) k = Some (Data v)
                 \<longleftrightarrow> map_of obj k = Some (Data v)"
    by (auto simp: map_of_instrumentObject split: option.splits property.splits)
  ultimately show ?thesis
    by (simp add: trace_disabled keys_instrumentObject)
qed

text \<open>At the sample object: \<open>ping\<close> ignores its receiver, and both the traced call and
  the instrumented method return its arguments; a rejection passes through \<open>trace\<close>
  unchanged; the data property \<open>x\<close> is copied.\<close>

theorem disabled_tracing_is_transparent_witness:
  "map_of sample_object ''ping'' = Some (Function ping) \<and>
   trace None ''step'' (ArgsFn traced_ping) idle = (Inr (JArr [JNum 7]), idle) \<and>
   trace None ''step'' (ArgsFn traced_failing) idle = (Inl (Error ''no such run''), idle) \<and>
   call_method (instrumentObject None ''world.runs'' sample_object) ''ping'' [JNum 7] idle
     = (Inr (JArr [JNum 7]), idle) \<and>
   call_method sample_object ''ping'' [JNum 7] idle = (Inr (JArr [JNum 7]), idle) \<and>
   map_of (instrumentObject None ''world.runs'' sample_object) ''x'' = Some (Data (JNum 1))"
proof -
  have f: "map_of sample_object ''ping'' = Some (Function (ping :: unit js_function))"
    by (simp add: sample_object_def)
  have r: "\<And>this. (ping :: unit js_function) this = ping JUndefined"
    by (rule ext, rule ext) (simp add: ping_def)
  have x: "map_of sample_object ''x'' = Some (Data (JNum 1) :: unit property)"
    by (simp add: sample_object_def)
  from disabled_tracing_is_transparent
      [OF f r, of "''step''" traced_ping idle "''world.runs''" "[JNum 7]"]
    disabled_tracing_is_transparent
      [OF f r, of "''step''" traced_failing idle "''world.runs''" "[JNum 7]"]
    f x
  show ?thesis
    by (simp add: call_method_def traced_ping_def traced_failing_def ping_def failing_def)
qed

section \<open>The import graph search\<close>

lemma scan_children_found: "fst (scan_children t cs q) \<longleftrightarrow> t \<in> set cs"
  by (induction cs arbitrary: q) auto

lemma scan_children_queue: "t \<notin> set cs \<Longrightarrow> snd (scan_children t cs q) = q @ cs"
  by (induction cs arbitrary: q) auto

lemma visited_reach:
  assumes "(v, t) \<in> (import_edges g)\<^sup>+" and "v \<in> visited" and "expanded g t visited queue"
  shows "\<exists>q\<in>set queue. q \<notin> visited \<and> (q, t) \<in> (import_edges g)\<^sup>+"
  using assms(1,2)
proof (induction rule: converse_trancl_induct)
  case (base y)
  with assms(3) show ?case unfolding expanded_def by blast
next
  case (step y z)
  from step.hyps(1) step.prems assms(3)
  have "z \<in> visited \<or> z \<in> set queue" unfolding expanded_def by blast
  show ?case
  proof (cases "z \<in> visited")
    case True
    then show ?thesis by (rule step.IH)
  next
    case False
    with \<open>z \<in> visited \<or> z \<in> set queue\<close> step.hyps(2) show ?thesis by blast
  qed
qed

lemma no_entry_no_reach:
  assumes "map_of g c = None"
  shows "(c, t) \<notin> (import_edges g)\<^sup>+"
proof
  assume "(c, t) \<in> (import_edges g)\<^sup>+"
  then obtain z where "(c, z) \<in> import_edges g"
    by (meson tranclD)
  with assms show False by (simp add: import_edges_def)
qed

lemma reach_via_children:
  assumes "map_of g c = Some cs" and "t \<notin> set cs"
  shows "(c, t) \<in> (import_edges g)\<^sup>+ \<longleftrightarrow> (\<exists>q\<in>set cs. (q, t) \<in> (import_edges g)\<^sup>+)"
proof
  assume "(c, t) \<in> (import_edges g)\<^sup>+"
  then obtain z where z: "(c, z) \<in> import_edges g" "(z, t) \<in> (import_edges g)\<^sup>*"
    by (meson tranclD)
  from z(1) assms(1) have "z \<in> set cs" by (simp add: import_edges_def)
  with assms(2) have "z \<noteq> t" by blast
  with z(2) have "(z, t) \<in> (import_edges g)\<^sup>+" by (metis rtranclD)
  with \<open>z \<in> set cs\<close> show "\<exists>q\<in>set cs. (q, t) \<in> (import_edges g)\<^sup>+" by blast
next
  assume "\<exists>q\<in>set cs. (q, t) \<in> (import_edges g)\<^sup>+"
  then obtain q where "q \<in> set cs" "(q, t) \<in> (import_edges g)\<^sup>+" by blast
  moreover from \<open>q \<in> set cs\<close> assms(1) have "(c, q) \<in> import_edges g"
    by (auto simp: import_edges_def)
  ultimately show "(c, t) \<in> (import_edges g)\<^sup>+" by (meson trancl_into_trancl2)
qed

lemma loop_reach:
  "expanded g t visited queue \<Longrightarrow>
   parentHasChild_loop g t visited queue
     \<longleftrightarrow> (\<exists>q\<in>set queue. (q, t) \<in> (import_edges g)\<^sup>+)"
proof (induction g t visited queue rule: parentHasChild_loop.induct)
  case (1 g t visited)
  then show ?case by simp
next
  case (2 g t visited current queue)
  show ?case
  proof (cases "current \<in> visited")
    case True
    have ex: "expanded g t visited queue"
      using "2.prems" True unfolding expanded_def by auto
    have "(current, t) \<in> (import_edges g)\<^sup>+
            \<Longrightarrow> \<exists>q\<in>set queue. (q, t) \<in> (import_edges g)\<^sup>+"
      using visited_reach [OF _ True ex] by blast
    with "2.IH"(1) [OF True ex] True show ?thesis by auto
  next
    case False
    show ?thesis
    proof (cases "map_of g current")
      case None
      have ex: "expanded g t (insert current visited) queue"
        using "2.prems" None unfolding expanded_def import_edges_def by auto
      from "2.IH"(2) [OF False None ex] False None no_entry_no_reach [OF None]
      show ?thesis by auto
    next
      case (Some cs)
      show ?thesis
      proof (cases "t \<in> set cs")
        case True
        then have "fst (scan_children t cs queue)" by (simp add: scan_children_found)
        then have lhs: "parentHasChild_loop g t visited (current # queue)"
          using False Some by (auto split: prod.splits bool.splits)
        from True Some have "(current, t) \<in> import_edges g"
          by (auto simp: import_edges_def)
        with lhs show ?thesis by auto
      next
        case nf: False
        then have sc: "scan_children t cs queue = (False, queue @ cs)"
          using scan_children_found [of t cs queue] scan_children_queue [of t cs queue]
          by (cases "scan_children t cs queue") auto
        have ex: "expanded g t (insert current visited) (queue @ cs)"
          using "2.prems" Some nf unfolding expanded_def import_edges_def by auto
        have "parentHasChild_loop g t visited (current # queue)
              = parentHasChild_loop g t (insert current visited) (queue @ cs)"
          using False Some sc by simp
        also have "\<dots> \<longleftrightarrow> (\<exists>q\<in>set (queue @ cs). (q, t) \<in> (import_edges g)\<^sup>+)"
          using "2.IH"(3) [OF False Some sc [symmetric] _ ex] by simp
        also have "\<dots> \<longleftrightarrow> (\<exists>q\<in>set (current # queue). (q, t) \<in> (import_edges g)\<^sup>+)"
          using reach_via_children [OF Some nf] by auto
        finally show ?thesis .
      qed
    qed
  qed
qed

text \<open>
  C10: \<open>parentHasChild\<close> is a total function (its loop was shown to end on every graph,
  cyclic or not, when it was defined), and it returns true exactly when \<open>childToFind\<close> can
  be reached from \<open>parent\<close> along one or more import edges.
\<close>

theorem parentHasChild_iff_reachable:
  "parentHasChild importParents parent childToFind \<longleftrightarrow>
     (parent, childToFind) \<in> (import_edges importParents)\<^sup>+"
proof -
  have "expanded importParents childToFind {} [parent]"
    by (simp add: expanded_def)
  from loop_reach [OF this] show ?thesis
    by (simp add: parentHasChild_def)
qed

text \<open>On the cyclic graph: \<open>a\<close> reaches itself through \<open>b\<close>, and the leaf \<open>c\<close> reaches
  nothing.\<close>

theorem parentHasChild_iff_reachable_witness:
  "parentHasChild cyclic_imports ''a'' ''a'' \<and>
   (''a'', ''a'') \<in> (import_edges cyclic_imports)\<^sup>+ \<and>
   \<not> parentHasChild cyclic_imports ''c'' ''a'' \<and>
   (''c'', ''a'') \<notin> (import_edges cyclic_imports)\<^sup>+"
  using parentHasChild_iff_reachable [of cyclic_imports "''a''" "''a''"]
    parentHasChild_iff_reachable [of cyclic_imports "''c''" "''a''"]
  by (simp add: parentHasChild_def cyclic_imports_def)

section \<open>The World contract and the step lifecycle\<close>

text \<open>What an accepted append does to the log: the new event goes to its end.\<close>

lemma events_create_effect:
  assumes "events_create now rid d w = Inr (res, w')"
  shows "log w' = log w @ [cr_event res]
       \<and> cr_event res = new_event now (case rid of None \<Rightarrow> length (log w) | Some r \<Rightarrow> r) d w"
proof (cases rid)
  case None
  with assms show ?thesis
    by (cases d) (auto simp: events_create_def commit_def new_event_def Let_def)
next
  case (Some r)
  with assms obtain run where run: "run_table (derived w) r = Some run"
    "\<not> run_terminal (r_status run)" "accept now r run d w = Inr (res, w')"
    by (auto simp: events_create_def split: option.splits if_splits)
  from run(1,3) show ?thesis unfolding Some
    by (cases d)
       (auto simp: commit_def new_event_def Let_def steps_update_def
          split: option.splits if_splits)
qed

lemma world_after_snoc: "world_after (qs @ [q]) = submit (world_after qs) q"
  by (simp add: world_after_def)

lemma world_after_Nil: "world_after [] = empty_world"
  by (simp add: world_after_def)

lemma submit_cases:
  obtains (rejected) "submit w q = w"
  | (accepted) now rid d res where "q = (now, rid, d)"
      "events_create now rid d w = Inr (res, submit w q)"
  by (cases q; cases "events_create (fst q) (fst (snd q)) (snd (snd q)) w")
     (auto simp: submit_def)

lemma world_after_induct [consumes 0, case_names empty append]:
  assumes "P empty_world"
      and "\<And>w now rid d res w'. P w \<Longrightarrow> events_create now rid d w = Inr (res, w') \<Longrightarrow> P w'"
  shows "P (world_after qs)"
proof (induction qs rule: rev_induct)
  case Nil
  show ?case using assms(1) by (simp add: world_after_Nil)
next
  case (snoc q qs)
  show ?case
  proof (cases rule: submit_cases [of "world_after qs" q])
    case rejected
    with snoc show ?thesis by (simp add: world_after_snoc)
  next
    case (accepted now rid d res)
    from assms(2) [OF snoc accepted(2)]
    show ?thesis by (simp add: world_after_snoc)
  qed
qed

text \<open>The four invariants hold in every observed state.\<close>

lemma count_started_snoc:
  "count_started r sid (es @ [e]) =
     count_started r sid es + (if e_runId e = r \<and> e_data e = step_started sid then 1 else 0)"
  by (simp add: count_started_def)

lemma attempt_counted_step:
  assumes "attempt_counted w r sid" and "events_create now rid d w = Inr (res, w')"
  shows "attempt_counted w' r sid"
proof (cases rid)
  case None
  with assms show ?thesis
    by (cases d)
       (auto simp: events_create_def commit_def new_event_def Let_def attempt_counted_def
          count_started_snoc split: option.splits)
next
  case (Some r0)
  with assms(2) obtain run where run: "run_table (derived w) r0 = Some run"
    "accept now r0 run d w = Inr (res, w')"
    by (auto simp: events_create_def split: option.splits if_splits)
  from run(2) assms(1) show ?thesis
    by (cases d)
       (auto simp: commit_def new_event_def Let_def attempt_counted_def count_started_snoc
          steps_update_def skip_in_flight_def completed_patch_def failed_patch_def
          split: option.splits if_splits)
qed

lemma attempt_counted_world_after: "attempt_counted (world_after qs) r sid"
proof (induction rule: world_after_induct)
  case empty
  show ?case
    by (simp add: empty_world_def empty_entities_def attempt_counted_def count_started_def)
next
  case (append w now rid d res w')
  then show ?case by (rule attempt_counted_step)
qed

















lemma start_terminal:
  assumes "run_table (derived w) r = Some run"
      and "step_table (derived w) (r, sid) = Some s" and "step_terminal (s_status s)"
  shows "events_create now (Some r) (step_started sid) w = Inl Conflict"
  using assms by (simp add: events_create_def)

lemma step_has_run_step:
  assumes "step_has_run w r sid" and "events_create now rid d w = Inr (res, w')"
  shows "step_has_run w' r sid"
proof (cases rid)
  case None
  with assms show ?thesis
    by (cases d)
       (auto simp: events_create_def commit_def Let_def step_has_run_def split: if_splits)
next
  case (Some r0)
  with assms(2) obtain run where run: "run_table (derived w) r0 = Some run"
    "accept now r0 run d w = Inr (res, w')"
    by (auto simp: events_create_def split: option.splits if_splits)
  from run assms(1) show ?thesis
    by (cases d)
       (auto simp: commit_def Let_def step_has_run_def steps_update_def skip_in_flight_def
          split: option.splits if_splits)
qed

lemma step_has_run_world_after: "step_has_run (world_after qs) r sid"
proof (induction rule: world_after_induct)
  case empty
  show ?case by (simp add: empty_world_def empty_entities_def step_has_run_def)
next
  case (append w now rid d res w')
  then show ?case by (rule step_has_run_step)
qed

lemma worker_begin_rejected:
  "events_create now (Some (i_runId msg)) (step_started (i_stepId msg)) w = Inl err \<Longrightarrow>
   worker_begin deserialize blobs now msg w = (Inl err, w)"
  by (simp add: worker_begin_def)

lemma worker_begin_hydrated:
  assumes "worker_begin deserialize blobs now msg w = (Inr h, w')"
  shows "\<exists>ack. events_create now (Some (i_runId msg)) (step_started (i_stepId msg)) w = Inr (ack, w')
     \<and> (\<exists>s. cr_step ack = Some s \<and> step_table (derived w') (i_runId msg, i_stepId msg) = Some s
            \<and> hy_attempt h = s_attempt s)
     \<and> hy_arguments h = hydrate deserialize blobs (i_argument msg)"
  using assms
  by (auto simp: worker_begin_def events_create_def commit_def Let_def
      split: sum.splits option.splits if_splits prod.splits)



text \<open>The scenarios, evaluated.\<close>

lemmas world_eval = world_after_def submit_def events_create_def commit_def new_event_def
  empty_world_def empty_entities_def run_terminal_def step_terminal_def steps_update_def
  failed_patch_def completed_patch_def attempts_exhausted_def retry_not_reached_def Let_def




lemma retry_scenario_step:
  "step_table (derived (world_after retry_scenario)) (0, ''s1'') = Some retry_step"
  by (simp add: world_eval retry_scenario_def running_scenario_def retry_step_def)

lemma done_scenario_step:
  "step_table (derived (world_after done_scenario)) (0, ''s1'') = Some done_step"
  by (simp add: world_eval done_scenario_def retry_scenario_def running_scenario_def
      done_step_def)

lemma s1_worker_begin:
  "fst (worker_begin plain_deserialize empty_blobs 114 s1_invocation (world_after retry_scenario))
     = Inr \<lparr> hy_attempt = 2, hy_arguments = Some ''args'' \<rparr>"
  by (simp add: worker_begin_def s1_invocation_def hydrate_def plain_deserialize_def
      world_eval retry_scenario_def running_scenario_def)

text \<open>
  C1: in every observed state, the \<open>attempt\<close> of every step equals the number of
  \<open>step_started\<close> events in the log for that step. And a worker that has hydrated did so
  after its \<open>step_started\<close> append was accepted: the event is the last of the log it
  then works on, and the attempt it hydrated for is the number of \<open>step_started\<close> events
  of the step in that log.
\<close>

theorem attempt_counts_started_events:
  "(step_table (derived (world_after qs)) (r, sid) = Some s
      \<longrightarrow> s_attempt s = count_started r sid (log (world_after qs))) \<and>
   (worker_begin deserialize blobs now msg (world_after qs) = (Inr h, w')
      \<longrightarrow> (\<exists>ack. events_create now (Some (i_runId msg)) (step_started (i_stepId msg))
                    (world_after qs) = Inr (ack, w')
                \<and> log w' = log (world_after qs) @ [cr_event ack]
                \<and> e_runId (cr_event ack) = i_runId msg
                \<and> e_data (cr_event ack) = step_started (i_stepId msg))
          \<and> hy_attempt h = count_started (i_runId msg) (i_stepId msg) (log w')
          \<and> hy_arguments h = hydrate deserialize blobs (i_argument msg))"
proof (intro conjI impI)
  assume "step_table (derived (world_after qs)) (r, sid) = Some s"
  with attempt_counted_world_after [of qs r sid]
  show "s_attempt s = count_started r sid (log (world_after qs))"
    by (simp add: attempt_counted_def)
next
  assume wb: "worker_begin deserialize blobs now msg (world_after qs) = (Inr h, w')"
  let ?r = "i_runId msg" and ?sid = "i_stepId msg"
  from worker_begin_hydrated [OF wb] obtain ack s where
    ack: "events_create now (Some ?r) (step_started ?sid) (world_after qs) = Inr (ack, w')"
    and s: "step_table (derived w') (?r, ?sid) = Some s" "hy_attempt h = s_attempt s"
    and args: "hy_arguments h = hydrate deserialize blobs (i_argument msg)"
    by blast
  from events_create_effect [OF ack]
  show "\<exists>ack. events_create now (Some ?r) (step_started ?sid) (world_after qs) = Inr (ack, w')
          \<and> log w' = log (world_after qs) @ [cr_event ack]
          \<and> e_runId (cr_event ack) = ?r
          \<and> e_data (cr_event ack) = step_started ?sid"
    using ack by (auto simp: new_event_def)
  have "w' = world_after (qs @ [(now, Some ?r, step_started ?sid)])"
    using ack by (simp add: world_after_snoc submit_def)
  with attempt_counted_world_after [of "qs @ [(now, Some ?r, step_started ?sid)]" ?r ?sid] s
  show "hy_attempt h = count_started ?r ?sid (log w')"
    by (simp add: attempt_counted_def)
  show "hy_arguments h = hydrate deserialize blobs (i_argument msg)" by (rule args)
qed

text \<open>At the retry scenario: the step is at attempt 1 with one \<open>step_started\<close> event;
  a worker invoked at time 114 hydrates for attempt 2, with two such events in the log.\<close>

theorem attempt_counts_started_events_witness:
  "step_table (derived (world_after retry_scenario)) (0, ''s1'') = Some retry_step \<and>
   s_attempt retry_step = 1 \<and>
   count_started 0 ''s1'' (log (world_after retry_scenario)) = 1 \<and>
   fst (worker_begin plain_deserialize empty_blobs 114 s1_invocation
          (world_after retry_scenario))
     = Inr \<lparr> hy_attempt = 2, hy_arguments = Some ''args'' \<rparr> \<and>
   count_started 0 ''s1''
     (log (snd (worker_begin plain_deserialize empty_blobs 114 s1_invocation
                  (world_after retry_scenario)))) = 2"
proof -
  let ?wb = "worker_begin plain_deserialize empty_blobs 114 s1_invocation
               (world_after retry_scenario)"
  have wb: "?wb = (Inr \<lparr> hy_attempt = 2, hy_arguments = Some ''args'' \<rparr>, snd ?wb)"
    using s1_worker_begin by (cases ?wb) simp
  from attempt_counts_started_events [of retry_scenario 0 "''s1''" retry_step plain_deserialize empty_blobs 114
      s1_invocation "\<lparr> hy_attempt = 2, hy_arguments = Some ''args'' \<rparr>" "snd ?wb"]
    retry_scenario_step wb s1_worker_begin
  show ?thesis by (simp add: retry_step_def s1_invocation_def)
qed






text \<open>
  C5: for a step that has \<open>succeeded\<close> or \<open>failed\<close>, in every observed state, an attempt
  to start it is rejected with \<open>Conflict\<close>, whose HTTP equivalent is 409; the worker
  receives that rejection and the World is left as it was. No error of the World has
  410 as its HTTP equivalent.
\<close>

theorem terminal_step_conflict:
  assumes step: "step_table (derived (world_after qs)) (r, sid) = Some s"
      and final: "s_status s = Succeeded \<or> s_status s = Failed"
  shows "events_create now (Some r) (step_started sid) (world_after qs) = Inl Conflict \<and>
         http_equivalent Conflict = Some 409 \<and>
         (\<forall>err. http_equivalent err \<noteq> Some 410) \<and>
         worker_begin deserialize blobs now
             \<lparr> i_runId = r, i_stepId = sid, i_attempt = a, i_argument = arg \<rparr>
             (world_after qs)
           = (Inl Conflict, world_after qs)"
proof -
  have no_gone: "\<forall>err. http_equivalent err \<noteq> Some 410"
  proof
    fix err show "http_equivalent err \<noteq> Some 410"
      by (cases err) (simp_all add: http_equivalent_def)
  qed
  from step_has_run_world_after [of qs r sid] step
  obtain run where run: "run_table (derived (world_after qs)) r = Some run"
    by (auto simp: step_has_run_def)
  from final have "step_terminal (s_status s)" by (simp add: step_terminal_def)
  from start_terminal [OF run step this]
  have e: "events_create now (Some r) (step_started sid) (world_after qs) = Inl Conflict" .
  with no_gone show ?thesis by (simp add: worker_begin_def http_equivalent_def)
qed

text \<open>At the scenario in which the step has succeeded: a start at time 200 is a
  \<open>Conflict\<close>.\<close>

theorem terminal_step_conflict_witness:
  "step_table (derived (world_after done_scenario)) (0, ''s1'') = Some done_step \<and>
   s_status done_step = Succeeded \<and>
   events_create 200 (Some 0) (step_started ''s1'') (world_after done_scenario)
     = Inl Conflict \<and>
   http_equivalent Conflict = Some 409 \<and>
   worker_begin plain_deserialize empty_blobs 200 s1_invocation (world_after done_scenario)
     = (Inl Conflict, world_after done_scenario)"
proof -
  have final: "s_status done_step = Succeeded \<or> s_status done_step = Failed"
    by (simp add: done_step_def)
  from terminal_step_conflict [OF done_scenario_step final, of 200 plain_deserialize empty_blobs 2 "Inline ''args''"]
    done_scenario_step final
  show ?thesis by (simp add: s1_invocation_def done_step_def)
qed

end
